theory Spec2Isabelle
  imports Main "HOL-Library.Multiset" "HOL-Library.Product_Lexorder"
begin

section \<open>Python values\<close>

text \<open>
  A Python \<open>str\<close> is a sequence of Unicode code points, so a string is a list of
  naturals; \<open>len\<close>, slicing and \<open>in\<close> count code points, not bytes.
  \<open>ascii\<close> reads an ASCII literal. The strings that reach SQLite are taken to
  be what it stores and compares as they are: without the NUL character and without
  lone surrogates.
\<close>

type_synonym pystr = "nat list"

definition ascii :: "string \<Rightarrow> pystr" where
  "ascii s = map of_char s"

text \<open>The exceptions the modelled code raises or receives from \<open>sqlite3\<close>.\<close>

datatype error =
    ValueError pystr
  | OperationalError
  | IntegrityError
  | OverflowError

text \<open>
  \<open>str.isspace\<close> of one code point: the characters \<open>str.strip()\<close> removes
  when called without an argument.
\<close>

definition isspace :: "nat \<Rightarrow> bool" where
  "isspace c \<longleftrightarrow>
     (9 \<le> c \<and> c \<le> 13) \<or> (28 \<le> c \<and> c \<le> 32) \<or> c = 133 \<or> c = 160 \<or> c = 5760 \<or>
     (8192 \<le> c \<and> c \<le> 8202) \<or> c = 8232 \<or> c = 8233 \<or> c = 8239 \<or> c = 8287 \<or> c = 12288"

definition lstrip :: "pystr \<Rightarrow> pystr" where
  "lstrip s = dropWhile isspace s"

definition rstrip :: "pystr \<Rightarrow> pystr" where
  "rstrip s = rev (dropWhile isspace (rev s))"

definition strip :: "pystr \<Rightarrow> pystr" where
  "strip s = lstrip (rstrip s)"


text \<open>\<open>str(n)\<close> of an integer, as an f-string prints it.\<close>

fun digits :: "nat \<Rightarrow> pystr" where
  "digits n = (if n < 10 then [48 + n] else digits (n div 10) @ [48 + n mod 10])"

declare digits.simps [simp del]

definition str_int :: "int \<Rightarrow> pystr" where
  "str_int i = (if i < 0 then 45 # digits (nat (- i)) else digits (nat i))"

section \<open>SecurityManager\<close>

abbreviation (input) backslash :: nat where "backslash \<equiv> 92"
abbreviation (input) dquote :: nat where "dquote \<equiv> 34"


text \<open>
  \<open>sanitize_command\<close>: the deny-list is
  \<open>; & | ` $ ( ) { } < >\<close> and the newline, tried in this order; the first one
  found in the command is reported in the \<open>ValueError\<close>.
\<close>

definition dangerous_chars :: "nat list" where
  "dangerous_chars = [59, 38, 124, 96, 36, 40, 41, 123, 125, 60, 62, 10]"

fun first_dangerous :: "nat list \<Rightarrow> pystr \<Rightarrow> nat option" where
  "first_dangerous [] cmd = None"
| "first_dangerous (char # chars) cmd =
     (if char \<in> set cmd then Some char else first_dangerous chars cmd)"

text \<open>The message \<open>Komut icinde izin verilmeyen karakter: \<close> (231 is c-cedilla).\<close>

definition dangerous_msg :: "nat \<Rightarrow> pystr" where
  "dangerous_msg char =
     ascii ''Komut i'' @ [231] @ ascii ''inde izin verilmeyen karakter: '' @ [char]"

definition sanitize_command :: "pystr \<Rightarrow> error + pystr" where
  "sanitize_command cmd =
     (case first_dangerous dangerous_chars cmd of
        Some char \<Rightarrow> Inl (ValueError (dangerous_msg char))
      | None \<Rightarrow> Inr (strip cmd))"

section \<open>The SQLite engine\<close>

text \<open>
  \<open>datetime.now().isoformat()\<close> is stored as text. ISO strings of naive datetimes
  have zero-padded fields of fixed width and an optional fraction at the end, so
  SQLite's text comparison orders them as the datetimes are ordered: a timestamp is
  modelled by its number of microseconds. \<open>hours24\<close> is
  \<open>timedelta(hours=24)\<close>.
\<close>

type_synonym timestamp = int

definition hours24 :: int where
  "hours24 = 24 * 3600 * 1000000"

text \<open>
  The \<open>sqlite3\<close> module binds a Python \<open>int\<close> as a 64-bit signed INTEGER and
  raises \<open>OverflowError\<close> for any other.
\<close>

definition int64 :: "int \<Rightarrow> bool" where
  "int64 i \<longleftrightarrow> - (2 ^ 63) \<le> i \<and> i < 2 ^ 63"

text \<open>\<open>LIMIT n\<close>: a negative \<open>n\<close> puts no bound on the number of rows.\<close>

definition sql_limit :: "int \<Rightarrow> 'a list \<Rightarrow> 'a list" where
  "sql_limit n rows = (if n < 0 then rows else take (nat n) rows)"




text \<open>
  \<open>json.dumps\<close> of a list of strings with the default options
  (\<open>ensure_ascii\<close>, separator \<open>", "\<close>): the text stored in the
  \<open>etiketler\<close> column.
\<close>

definition hex_digit :: "nat \<Rightarrow> nat" where
  "hex_digit n = (if n < 10 then 48 + n else 87 + n)"

definition hex4 :: "nat \<Rightarrow> pystr" where
  "hex4 n = [hex_digit (n div 4096 mod 16), hex_digit (n div 256 mod 16),
             hex_digit (n div 16 mod 16), hex_digit (n mod 16)]"

definition json_escape_char :: "nat \<Rightarrow> pystr" where
  "json_escape_char c =
     (if c = dquote then [backslash, dquote]
      else if c = backslash then [backslash, backslash]
      else if c = 10 then [backslash, 110]
      else if c = 13 then [backslash, 114]
      else if c = 9 then [backslash, 116]
      else if c = 12 then [backslash, 102]
      else if c = 8 then [backslash, 98]
      else if 32 \<le> c \<and> c \<le> 126 then [c]
      else if c < 65536 then [backslash, 117] @ hex4 c
      else [backslash, 117] @ hex4 (55296 + (c - 65536) div 1024 mod 1024) @
           [backslash, 117] @ hex4 (56320 + (c - 65536) mod 1024))"

definition json_dumps_str :: "pystr \<Rightarrow> pystr" where
  "json_dumps_str s = [dquote] @ concat (map json_escape_char s) @ [dquote]"

fun join :: "pystr \<Rightarrow> pystr list \<Rightarrow> pystr" where
  "join sep [] = []"
| "join sep [x] = x"
| "join sep (x # y # ys) = x @ sep @ join sep (y # ys)"

definition json_dumps_list :: "pystr list \<Rightarrow> pystr" where
  "json_dumps_list xs = [91] @ join (ascii '', '') (map json_dumps_str xs) @ [93]"

subsection \<open>Tables\<close>

text \<open>
  One record per table of \<open>_init_database\<close> that the modelled operations touch,
  with the columns of its \<open>CREATE TABLE\<close>; a table is the list of its rows in
  insertion order. A nullable column is an \<open>option\<close>.
\<close>

record kisa_row =
  kisa_id :: pystr
  kisa_icerik :: pystr
  kisa_metadata :: pystr
  kisa_erisim_sayisi :: int
  kisa_son_erisim :: "timestamp option"
  kisa_olusturma :: timestamp
  kisa_bitis :: timestamp

record uzun_row =
  uzun_id :: pystr
  uzun_icerik :: pystr
  uzun_metadata :: pystr
  uzun_etiketler :: pystr
  uzun_onem :: int
  uzun_erisim_sayisi :: int
  uzun_son_erisim :: "timestamp option"
  uzun_olusturma :: timestamp

record oturum_row =
  oturum_id :: pystr
  oturum_isim :: pystr
  oturum_proje_yolu :: "pystr option"
  oturum_olusturma :: timestamp
  oturum_mod :: pystr

record mesaj_row =
  mesaj_id :: int
  mesaj_oturum_id :: pystr
  mesaj_rol :: pystr
  mesaj_icerik :: pystr
  mesaj_zaman :: timestamp

record gorev_row =
  gorev_id :: int
  gorev_baslik :: pystr
  gorev_aciklama :: pystr
  gorev_oncelik :: pystr
  gorev_durum :: pystr
  gorev_olusturma :: timestamp
  gorev_tamamlanma :: "timestamp option"

record ogrenilen_row =
  ogrenilen_id :: int
  ogrenilen_soru :: pystr
  ogrenilen_yanit :: pystr
  ogrenilen_olusturma :: timestamp

text \<open>
  The database file as a connection sees it. \<open>foreign_keys\<close> is the connection's
  \<open>PRAGMA foreign_keys\<close> setting, which decides whether the
  \<open>FOREIGN KEY ... ON DELETE CASCADE\<close> of \<open>mesajlar\<close> is enforced. The
  \<open>_seq\<close> fields are the \<open>AUTOINCREMENT\<close> counters (the largest id ever
  given); they are not bounded here, 2^63 inserts being out of reach.
\<close>

record db =
  foreign_keys :: bool
  kisa_sureli :: "kisa_row list"
  uzun_sureli :: "uzun_row list"
  oturumlar :: "oturum_row list"
  mesajlar :: "mesaj_row list"
  mesajlar_seq :: int
  gorevler :: "gorev_row list"
  gorevler_seq :: int
  ogrenilen :: "ogrenilen_row list"
  ogrenilen_seq :: int

text \<open>
  Whether the engine can run and commit the unit of work: when it cannot (file
  unreachable, locked or corrupt), \<open>sqlite3\<close> raises \<open>OperationalError\<close>.
\<close>

datatype engine = Responding | Failing

section \<open>DatabaseManager\<close>

text \<open>
  \<open>_get_connection\<close> opens the connection with \<open>sqlite3.connect\<close> and sets
  only its \<open>row_factory\<close>: no \<open>PRAGMA\<close> is issued, so foreign-key
  enforcement keeps SQLite's default, off. \<open>_init_database\<close> creates the tables,
  empty in a new file.
\<close>

definition init_database :: db where
  "init_database =
     \<lparr>foreign_keys = False, kisa_sureli = [], uzun_sureli = [], oturumlar = [],
      mesajlar = [], mesajlar_seq = 0, gorevler = [], gorevler_seq = 0,
      ogrenilen = [], ogrenilen_seq = 0\<rparr>"

text \<open>
  \<open>get_cursor\<close>: the body runs under the lock; its changes are committed when it
  returns and rolled back, with the exception raised again, when it raises.
\<close>

definition get_cursor ::
  "engine \<Rightarrow> (db \<Rightarrow> (error + 'a) \<times> db) \<Rightarrow> db \<Rightarrow> (error + 'a) \<times> db" where
  "get_cursor eng body d =
     (case eng of
        Failing \<Rightarrow> (Inl OperationalError, d)
      | Responding \<Rightarrow>
          (case body d of
             (Inl e, d') \<Rightarrow> (Inl e, d)
           | (Inr v, d') \<Rightarrow> (Inr v, d')))"

subsection \<open>Short-term memory\<close>

text \<open>
  \<open>kisa_ekle\<close> reads the clock twice: \<open>now\<close> for \<open>olusturma\<close> and
  \<open>son_erisim\<close>, then \<open>now2\<close> for the expiry. \<open>new_id\<close> is the
  \<open>uuid4\<close> drawn; \<open>meta\<close> is the text \<open>json.dumps(meta or {})\<close>.
\<close>

definition kisa_ekle ::
  "engine \<Rightarrow> pystr \<Rightarrow> timestamp \<Rightarrow> timestamp \<Rightarrow> pystr \<Rightarrow> pystr \<Rightarrow> db \<Rightarrow> (error + pystr) \<times> db" where
  "kisa_ekle eng new_id now now2 icerik meta d =
     (let expires = now2 + hours24 in
      case get_cursor eng
             (\<lambda>d. if new_id \<in> set (map kisa_id (kisa_sureli d)) then (Inl IntegrityError, d)
                  else (Inr (),
                        d\<lparr>kisa_sureli := kisa_sureli d @
                            [\<lparr>kisa_id = new_id, kisa_icerik = icerik, kisa_metadata = meta,
                              kisa_erisim_sayisi = 0, kisa_son_erisim = Some now,
                              kisa_olusturma = now, kisa_bitis = expires\<rparr>]\<rparr>)) d of
        (Inl e, d') \<Rightarrow> (Inl e, d')
      | (Inr u, d') \<Rightarrow> (Inr new_id, d'))"

definition kisa_getir :: "engine \<Rightarrow> timestamp \<Rightarrow> int \<Rightarrow> db \<Rightarrow> error + kisa_row list" where
  "kisa_getir eng now limit d =
     fst (get_cursor eng
            (\<lambda>d. if \<not> int64 limit then (Inl OverflowError, d)
                 else (Inr (sql_limit limit
                              (sort_key (\<lambda>r. - kisa_olusturma r)
                                 (filter (\<lambda>r. now < kisa_bitis r) (kisa_sureli d)))), d)) d)"

definition kisa_temizle :: "engine \<Rightarrow> timestamp \<Rightarrow> db \<Rightarrow> (error + int) \<times> db" where
  "kisa_temizle eng now d =
     get_cursor eng
       (\<lambda>d. (Inr (int (length (filter (\<lambda>r. kisa_bitis r < now) (kisa_sureli d)))),
              d\<lparr>kisa_sureli := filter (\<lambda>r. \<not> kisa_bitis r < now) (kisa_sureli d)\<rparr>)) d"

subsection \<open>Long-term memory\<close>

text \<open>The message \<open>Onem 1-10 arasi olmali\<close> (214 is O-diaeresis, 305 dotless i).\<close>

definition onem_msg :: pystr where
  "onem_msg = [214] @ ascii ''nem 1-10 aras'' @ [305] @ ascii '' olmal'' @ [305]"

definition uzun_ekle ::
  "engine \<Rightarrow> pystr \<Rightarrow> timestamp \<Rightarrow> pystr \<Rightarrow> pystr list option \<Rightarrow> int \<Rightarrow> pystr \<Rightarrow> db
     \<Rightarrow> (error + pystr) \<times> db" where
  "uzun_ekle eng new_id now icerik etiketler onem meta d =
     (if \<not> (1 \<le> onem \<and> onem \<le> 10) then (Inl (ValueError onem_msg), d)
      else
        case get_cursor eng
               (\<lambda>d. if new_id \<in> set (map uzun_id (uzun_sureli d)) then (Inl IntegrityError, d)
                    else (Inr (),
                          d\<lparr>uzun_sureli := uzun_sureli d @
                              [\<lparr>uzun_id = new_id, uzun_icerik = icerik, uzun_metadata = meta,
                                uzun_etiketler =
                                  json_dumps_list (case etiketler of None \<Rightarrow> [] | Some ts \<Rightarrow> ts),
                                uzun_onem = onem, uzun_erisim_sayisi = 0,
                                uzun_son_erisim = Some now, uzun_olusturma = now\<rparr>]\<rparr>)) d of
          (Inl e, d') \<Rightarrow> (Inl e, d')
        | (Inr u, d') \<Rightarrow> (Inr new_id, d'))"




subsection \<open>Sessions and messages\<close>

text \<open>
  \<open>oturum_olustur\<close>: the id is the first 8 characters of the \<open>uuid4\<close> drawn;
  a missing or empty name becomes \<open>oturum-<id>\<close>, a missing or empty project
  path the working directory \<open>cwd\<close>. It returns the id and the name.
\<close>

definition oturum_olustur ::
  "engine \<Rightarrow> pystr \<Rightarrow> timestamp \<Rightarrow> pystr \<Rightarrow> pystr option \<Rightarrow> pystr option \<Rightarrow> db
     \<Rightarrow> (error + pystr \<times> pystr) \<times> db" where
  "oturum_olustur eng uuid now cwd isim proje d =
     (let new_id = take 8 uuid;
          isim' = (if isim = None \<or> isim = Some [] then ascii ''oturum-'' @ new_id else the isim);
          proje' = (if proje = None \<or> proje = Some [] then cwd else the proje) in
      case get_cursor eng
             (\<lambda>d. if new_id \<in> set (map oturum_id (oturumlar d)) then (Inl IntegrityError, d)
                  else (Inr (),
                        d\<lparr>oturumlar := oturumlar d @
                            [\<lparr>oturum_id = new_id, oturum_isim = isim',
                              oturum_proje_yolu = Some proje', oturum_olusturma = now,
                              oturum_mod = ascii ''build''\<rparr>]\<rparr>)) d of
        (Inl e, d') \<Rightarrow> (Inl e, d')
      | (Inr u, d') \<Rightarrow> (Inr (new_id, isim'), d'))"

text \<open>The message \<open>Rol user/assistant/system olmali\<close>.\<close>

definition rol_msg :: pystr where
  "rol_msg = ascii ''Rol user/assistant/system olmal'' @ [305]"

text \<open>
  \<open>oturum_mesaj_ekle\<close>: the insert violates the foreign key, when the connection
  enforces it, if no session has the id.
\<close>

definition oturum_mesaj_ekle ::
  "engine \<Rightarrow> timestamp \<Rightarrow> pystr \<Rightarrow> pystr \<Rightarrow> pystr \<Rightarrow> db \<Rightarrow> (error + unit) \<times> db" where
  "oturum_mesaj_ekle eng now oid rol icerik d =
     (if rol \<notin> {ascii ''user'', ascii ''assistant'', ascii ''system''}
      then (Inl (ValueError rol_msg), d)
      else
        get_cursor eng
          (\<lambda>d. if foreign_keys d \<and> oid \<notin> set (map oturum_id (oturumlar d))
               then (Inl IntegrityError, d)
               else (Inr (),
                     d\<lparr>mesajlar := mesajlar d @
                         [\<lparr>mesaj_id = mesajlar_seq d + 1, mesaj_oturum_id = oid,
                           mesaj_rol = rol, mesaj_icerik = icerik, mesaj_zaman = now\<rparr>],
                       mesajlar_seq := mesajlar_seq d + 1\<rparr>)) d)"

definition oturum_mesajlari :: "engine \<Rightarrow> pystr \<Rightarrow> int \<Rightarrow> db \<Rightarrow> error + mesaj_row list" where
  "oturum_mesajlari eng oid limit d =
     fst (get_cursor eng
            (\<lambda>d. if \<not> int64 limit then (Inl OverflowError, d)
                 else (Inr (sql_limit limit
                              (sort_key (\<lambda>r. - mesaj_zaman r)
                                 (filter (\<lambda>r. mesaj_oturum_id r = oid) (mesajlar d)))), d)) d)"

text \<open>
  Modelled from the spec: the operation that deletes a session, which the source does
  not define (no statement of the source deletes from \<open>oturumlar\<close>). It is the
  statement \<open>DELETE FROM oturumlar WHERE id = ?\<close> run as a unit of work, as the
  sibling \<open>gorev_sil\<close> deletes a task. SQLite then applies the
  \<open>ON DELETE CASCADE\<close> that the schema declares for \<open>mesajlar.oturum_id\<close>,
  for the rows of a deleted session and only on a connection that enforces foreign
  keys.
\<close>

definition oturum_sil :: "engine \<Rightarrow> pystr \<Rightarrow> db \<Rightarrow> (error + unit) \<times> db" where
  "oturum_sil eng oid d =
     get_cursor eng
       (\<lambda>d. (Inr (),
              d\<lparr>oturumlar := filter (\<lambda>r. oturum_id r \<noteq> oid) (oturumlar d),
                mesajlar :=
                  (if foreign_keys d \<and> oid \<in> set (map oturum_id (oturumlar d))
                   then filter (\<lambda>m. mesaj_oturum_id m \<noteq> oid) (mesajlar d)
                   else mesajlar d)\<rparr>)) d"

subsection \<open>Tasks\<close>

text \<open>
  The \<open>CHECK\<close> of \<open>gorevler.oncelik\<close> admits \<open>dusuk\<close>, \<open>orta\<close>,
  \<open>yuksek\<close> and \<open>acil\<close> (252 is u-diaeresis, 351 s-cedilla).
\<close>

definition oncelikler :: "pystr set" where
  "oncelikler = {ascii ''d'' @ [252, 351, 252] @ ascii ''k'', ascii ''orta'',
                 ascii ''y'' @ [252] @ ascii ''ksek'', ascii ''acil''}"

definition gorev_ekle ::
  "engine \<Rightarrow> timestamp \<Rightarrow> pystr \<Rightarrow> pystr \<Rightarrow> pystr \<Rightarrow> db \<Rightarrow> (error + int) \<times> db" where
  "gorev_ekle eng now baslik aciklama oncelik d =
     get_cursor eng
       (\<lambda>d. if oncelik \<notin> oncelikler then (Inl IntegrityError, d)
            else (Inr (gorevler_seq d + 1),
                  d\<lparr>gorevler := gorevler d @
                      [\<lparr>gorev_id = gorevler_seq d + 1, gorev_baslik = baslik,
                        gorev_aciklama = aciklama, gorev_oncelik = oncelik,
                        gorev_durum = ascii ''bekliyor'', gorev_olusturma = now,
                        gorev_tamamlanma = None\<rparr>],
                    gorevler_seq := gorevler_seq d + 1\<rparr>)) d"

definition gorev_tamamla :: "engine \<Rightarrow> timestamp \<Rightarrow> int \<Rightarrow> db \<Rightarrow> (error + unit) \<times> db" where
  "gorev_tamamla eng now gid d =
     get_cursor eng
       (\<lambda>d. if \<not> int64 gid then (Inl OverflowError, d)
            else (Inr (),
                  d\<lparr>gorevler :=
                      map (\<lambda>r. if gorev_id r = gid
                               then r\<lparr>gorev_durum := ascii ''tamamlandi'',
                                      gorev_tamamlanma := Some now\<rparr>
                               else r) (gorevler d)\<rparr>)) d"

definition gorev_sil :: "engine \<Rightarrow> int \<Rightarrow> db \<Rightarrow> (error + unit) \<times> db" where
  "gorev_sil eng gid d =
     get_cursor eng
       (\<lambda>d. if \<not> int64 gid then (Inl OverflowError, d)
            else (Inr (), d\<lparr>gorevler := filter (\<lambda>r. gorev_id r \<noteq> gid) (gorevler d)\<rparr>)) d"

subsection \<open>Learned answers\<close>




section \<open>CommandManager\<close>

text \<open>
  What \<open>subprocess.run\<close> does with the command it is given: it returns a
  completed process (return code, captured \<open>stdout\<close> and \<open>stderr\<close>), or
  raises \<open>TimeoutExpired\<close>, a \<open>ValueError\<close> or another exception, the last
  two with the text of \<open>str(e)\<close>.
\<close>

datatype run_result =
    Completed int pystr pystr
  | TimeoutExpired
  | RaisedValueError pystr
  | RaisedException pystr

text \<open>
  The texts returned by the handlers: \<open>Guvenlik hatasi: \<close>,
  \<open>Hata: Zaman asimi (<n>s)\<close>, \<open>Hata: \<close>, \<open>Hata: Gecersiz dosya yolu\<close>,
  \<open>Sonuc yok\<close>, \<open>Hata: OpenCode zaman asimi (<n>s)\<close> and
  \<open>OpenCode hatasi: \<close>, with their Turkish letters as code points.
\<close>

definition guvenlik_hatasi :: "pystr \<Rightarrow> pystr" where
  "guvenlik_hatasi e = ascii ''G'' @ [252] @ ascii ''venlik hatas'' @ [305] @ ascii '': '' @ e"

definition zaman_asimi :: "int \<Rightarrow> pystr" where
  "zaman_asimi t =
     ascii ''Hata: Zaman a'' @ [351, 305] @ ascii ''m'' @ [305] @ ascii '' ('' @ str_int t @ ascii ''s)''"

definition hata :: "pystr \<Rightarrow> pystr" where
  "hata e = ascii ''Hata: '' @ e"

definition hata_kod :: "int \<Rightarrow> pystr \<Rightarrow> pystr" where
  "hata_kod returncode err = ascii ''Hata (kod '' @ str_int returncode @ ascii ''): '' @ err"

definition gecersiz_dosya_yolu :: pystr where
  "gecersiz_dosya_yolu = ascii ''Hata: Ge'' @ [231] @ ascii ''ersiz dosya yolu''"

definition sonuc_yok :: pystr where
  "sonuc_yok = ascii ''Sonu'' @ [231] @ ascii '' yok''"

definition opencode_zaman_asimi :: "int \<Rightarrow> pystr" where
  "opencode_zaman_asimi t =
     ascii ''Hata: OpenCode zaman a'' @ [351, 305] @ ascii ''m'' @ [305] @ ascii '' ('' @
     str_int t @ ascii ''s)''"

definition opencode_hatasi :: "pystr \<Rightarrow> pystr" where
  "opencode_hatasi e = ascii ''OpenCode hatas'' @ [305] @ ascii '': '' @ e"

text \<open>
  \<open>powershell\<close>: \<open>run\<close> is the process started on the sanitized command. The
  \<open>except\<close> clauses turn every exception into text; \<open>sanitize_command\<close>
  raises nothing but \<open>ValueError\<close>.
\<close>

definition powershell :: "int \<Rightarrow> (pystr \<Rightarrow> run_result) \<Rightarrow> pystr \<Rightarrow> pystr" where
  "powershell ps_timeout run cmd =
     (case sanitize_command cmd of
        Inl e \<Rightarrow> (case e of ValueError m \<Rightarrow> guvenlik_hatasi m | _ \<Rightarrow> hata [])
      | Inr cmd' \<Rightarrow>
          (case run cmd' of
             Completed returncode stdout stderr \<Rightarrow>
               (let output = (if stdout \<noteq> [] then strip stdout else []);
                    err = (if stderr \<noteq> [] then strip stderr else []) in
                if returncode \<noteq> 0 then hata_kod returncode (take 200 err)
                else take 2000 output)
           | TimeoutExpired \<Rightarrow> zaman_asimi ps_timeout
           | RaisedValueError m \<Rightarrow> guvenlik_hatasi m
           | RaisedException m \<Rightarrow> hata m))"

text \<open>
  \<open>opencode\<close>: \<open>mkdir_error\<close> is the text of the exception that creating the
  data directory raises, if it does; \<open>path_ok\<close> is the result of
  \<open>validate_path\<close> on the file system; the process reads the sanitized command
  and a newline on its input.
\<close>

definition opencode ::
  "pystr option \<Rightarrow> bool \<Rightarrow> int \<Rightarrow> (pystr \<Rightarrow> run_result) \<Rightarrow> pystr \<Rightarrow> pystr" where
  "opencode mkdir_error path_ok opencode_timeout run komut =
     (case sanitize_command komut of
        Inl e \<Rightarrow> (case e of ValueError m \<Rightarrow> guvenlik_hatasi m | _ \<Rightarrow> opencode_hatasi [])
      | Inr cmd_clean \<Rightarrow>
          (case mkdir_error of
             Some m \<Rightarrow> opencode_hatasi m
           | None \<Rightarrow>
               if \<not> path_ok then gecersiz_dosya_yolu
               else
                 (case run (cmd_clean @ [10]) of
                    Completed returncode stdout stderr \<Rightarrow>
                      (let output = stdout @ stderr in
                       if output \<noteq> [] then take 1500 output else sonuc_yok)
                  | TimeoutExpired \<Rightarrow> opencode_zaman_asimi opencode_timeout
                  | RaisedValueError m \<Rightarrow> guvenlik_hatasi m
                  | RaisedException m \<Rightarrow> opencode_hatasi m)))"

text \<open>The number of bytes of a string in UTF-8.\<close>

definition utf8_len :: "nat \<Rightarrow> nat" where
  "utf8_len c = (if c < 128 then 1 else if c < 2048 then 2 else if c < 65536 then 3 else 4)"

definition utf8_size :: "pystr \<Rightarrow> nat" where
  "utf8_size s = sum_list (map utf8_len s)"

section \<open>Runs and example states\<close>

text \<open>A store with one task, numbered 1.\<close>

definition gorev_db :: db where
  "gorev_db = snd (gorev_ekle Responding 1000 (ascii ''rapor'') [] (ascii ''orta'') init_database)"

text \<open>
  A new store in which a session is created and three messages are appended to it,
  and the same store after the session is deleted.
\<close>

definition oturum_db :: db where
  "oturum_db =
     (let d1 = snd (oturum_olustur Responding (ascii ''0a1b2c3d-0000'') 1000 (ascii ''/home'')
                      None None init_database);
          d2 = snd (oturum_mesaj_ekle Responding 1001 (ascii ''0a1b2c3d'') (ascii ''user'')
                      (ascii ''bir'') d1);
          d3 = snd (oturum_mesaj_ekle Responding 1002 (ascii ''0a1b2c3d'') (ascii ''assistant'')
                      (ascii ''iki'') d2)
      in snd (oturum_mesaj_ekle Responding 1003 (ascii ''0a1b2c3d'') (ascii ''user'')
                (ascii ''uc'') d3))"






text \<open>
  A new store with two short-term entries: for the first the clock moves by one
  microsecond between the two readings of \<open>kisa_ekle\<close>, for the second it does
  not.
\<close>

definition kisa_db :: db where
  "kisa_db =
     snd (kisa_ekle Responding (ascii ''k2'') 10 10 (ascii ''iki'') (ascii ''{}'')
            (snd (kisa_ekle Responding (ascii ''k1'') 0 1 (ascii ''bir'') (ascii ''{}'')
                    init_database)))"







section \<open>Units of work\<close>

lemma get_cursor_Responding:
  "get_cursor Responding body d =
     (case body d of (Inl e, d') \<Rightarrow> (Inl e, d) | (Inr v, d') \<Rightarrow> (Inr v, d'))"
  by (simp add: get_cursor_def)


section \<open>LIKE patterns as substring tests\<close>













section \<open>Properties of the SecurityManager\<close>

lemma first_dangerous_None:
  "first_dangerous chars cmd = None \<longleftrightarrow> (\<forall>c\<in>set chars. c \<notin> set cmd)"
  by (induction chars) auto

lemma first_dangerous_Some:
  "first_dangerous chars cmd = Some c \<Longrightarrow> c \<in> set chars \<and> c \<in> set cmd"
  by (induction chars) (auto split: if_splits)

lemma rstrip_decomp:
  "\<exists>suf. s = rstrip s @ suf \<and> (\<forall>c\<in>set suf. isspace c)"
proof -
  have "rev s = takeWhile isspace (rev s) @ dropWhile isspace (rev s)" by simp
  then have "s = rev (dropWhile isspace (rev s)) @ rev (takeWhile isspace (rev s))"
    by (metis rev_append rev_rev_ident)
  moreover have "\<forall>c\<in>set (rev (takeWhile isspace (rev s))). isspace c"
    by (auto dest: set_takeWhileD)
  ultimately show ?thesis unfolding rstrip_def by blast
qed

lemma lstrip_decomp:
  "\<exists>pre. s = pre @ lstrip s \<and> (\<forall>c\<in>set pre. isspace c)"
proof -
  have "s = takeWhile isspace s @ dropWhile isspace s" by simp
  moreover have "\<forall>c\<in>set (takeWhile isspace s). isspace c"
    by (auto dest: set_takeWhileD)
  ultimately show ?thesis unfolding lstrip_def by blast
qed

lemma strip_decomp:
  "\<exists>pre suf. s = pre @ strip s @ suf \<and> (\<forall>c\<in>set pre. isspace c) \<and> (\<forall>c\<in>set suf. isspace c)"
proof -
  obtain suf where suf: "s = rstrip s @ suf" "\<forall>c\<in>set suf. isspace c"
    using rstrip_decomp by blast
  obtain pre where pre: "rstrip s = pre @ lstrip (rstrip s)" "\<forall>c\<in>set pre. isspace c"
    using lstrip_decomp by blast
  have "s = pre @ strip s @ suf"
    using suf(1) pre(1) unfolding strip_def by (metis append.assoc)
  with suf(2) pre(2) show ?thesis by blast
qed

lemma rstrip_last: "rstrip s \<noteq> [] \<Longrightarrow> \<not> isspace (last (rstrip s))"
proof -
  assume ne: "rstrip s \<noteq> []"
  then have d: "dropWhile isspace (rev s) \<noteq> []" by (simp add: rstrip_def)
  then have "\<not> isspace (hd (dropWhile isspace (rev s)))" by (rule hd_dropWhile)
  with d show ?thesis by (simp add: rstrip_def last_rev)
qed

lemma strip_ends:
  "strip s \<noteq> [] \<Longrightarrow> \<not> isspace (hd (strip s)) \<and> \<not> isspace (last (strip s))"
proof -
  assume ne: "strip s \<noteq> []"
  then have h: "\<not> isspace (hd (strip s))"
    unfolding strip_def lstrip_def by (rule hd_dropWhile)
  from ne have r: "rstrip s \<noteq> []" by (auto simp: strip_def lstrip_def)
  have "last (dropWhile isspace (rstrip s)) = last (rstrip s)"
    using ne unfolding strip_def lstrip_def
    by (metis append_take_drop_id last_appendR takeWhile_dropWhile_id)
  with rstrip_last [OF r] have "\<not> isspace (last (strip s))"
    by (simp add: strip_def lstrip_def)
  with h show ?thesis by blast
qed

text \<open>
  C2. \<open>sanitize_command\<close> raises its \<open>ValueError\<close> exactly when the command
  contains a character of the deny-list, and then names such a character; a command
  with none of them is returned stripped: the result is the command without a
  whitespace-only prefix and a whitespace-only suffix, and it neither starts nor ends
  with whitespace.
\<close>

theorem sanitize_command_deny_list:
  "((\<exists>e. sanitize_command cmd = Inl e) \<longleftrightarrow> (\<exists>c\<in>set dangerous_chars. c \<in> set cmd)) \<and>
   (\<forall>e. sanitize_command cmd = Inl e \<longrightarrow>
        (\<exists>c\<in>set dangerous_chars. c \<in> set cmd \<and> e = ValueError (dangerous_msg c))) \<and>
   ((\<forall>c\<in>set dangerous_chars. c \<notin> set cmd) \<longrightarrow>
        sanitize_command cmd = Inr (strip cmd) \<and>
        (\<exists>pre suf. cmd = pre @ strip cmd @ suf \<and>
                    (\<forall>c\<in>set pre. isspace c) \<and> (\<forall>c\<in>set suf. isspace c)) \<and>
        (strip cmd \<noteq> [] \<longrightarrow> \<not> isspace (hd (strip cmd)) \<and> \<not> isspace (last (strip cmd))))"
proof (cases "first_dangerous dangerous_chars cmd")
  case None
  then have clean: "\<forall>c\<in>set dangerous_chars. c \<notin> set cmd"
    by (simp add: first_dangerous_None)
  from None have res: "sanitize_command cmd = Inr (strip cmd)"
    by (simp add: sanitize_command_def)
  from clean res strip_decomp [of cmd] strip_ends [of cmd] show ?thesis by auto
next
  case (Some c)
  then have c: "c \<in> set dangerous_chars" "c \<in> set cmd"
    using first_dangerous_Some by blast+
  from Some have res: "sanitize_command cmd = Inl (ValueError (dangerous_msg c))"
    by (simp add: sanitize_command_def)
  from c res show ?thesis by auto
qed

theorem sanitize_command_witness:
  "sanitize_command (ascii ''ls -la'') = Inr (ascii ''ls -la'') \<and>
   sanitize_command (ascii '' ls -la  '') = Inr (ascii ''ls -la'') \<and>
   (\<exists>e. sanitize_command (ascii ''ls; rm -rf /'') = Inl e)"
proof -
  have a: "\<forall>c\<in>set dangerous_chars. c \<notin> set (ascii ''ls -la'')"
    by (simp add: dangerous_chars_def ascii_def)
  have b: "\<forall>c\<in>set dangerous_chars. c \<notin> set (ascii '' ls -la  '')"
    by (simp add: dangerous_chars_def ascii_def)
  have c: "\<exists>c\<in>set dangerous_chars. c \<in> set (ascii ''ls; rm -rf /'')"
    by (simp add: dangerous_chars_def ascii_def)
  have s1: "strip (ascii ''ls -la'') = ascii ''ls -la''"
    by (simp add: strip_def lstrip_def rstrip_def ascii_def isspace_def)
  have s2: "strip (ascii '' ls -la  '') = ascii ''ls -la''"
    by (simp add: strip_def lstrip_def rstrip_def ascii_def isspace_def)
  from a b c s1 s2
    sanitize_command_deny_list [of "ascii ''ls -la''"]
    sanitize_command_deny_list [of "ascii '' ls -la  ''"]
    sanitize_command_deny_list [of "ascii ''ls; rm -rf /''"]
  show ?thesis by metis
qed

section \<open>Sessions: what deleting a session leaves behind\<close>

lemma oturum_sil_keeps_messages:
  "\<not> foreign_keys d \<Longrightarrow> mesajlar (snd (oturum_sil Responding oid d)) = mesajlar d"
  by (simp add: oturum_sil_def get_cursor_Responding)

lemma oturum_sil_cascades_when_enforced:
  assumes "foreign_keys d" and "oid \<in> set (map oturum_id (oturumlar d))" and "int64 limit"
  shows "oturum_mesajlari Responding oid limit (snd (oturum_sil Responding oid d)) = Inr []"
proof -
  have "filter (\<lambda>r. mesaj_oturum_id r = oid) (filter (\<lambda>m. mesaj_oturum_id m \<noteq> oid) (mesajlar d)) = []"
    by (induction "mesajlar d") (auto simp: filter_empty_conv)
  with assms show ?thesis
    by (simp add: oturum_mesajlari_def oturum_sil_def get_cursor_Responding sql_limit_def)
qed

lemma foreign_keys_unchanged:
  "foreign_keys (snd (oturum_olustur eng uuid now cwd isim proje d)) = foreign_keys d"
  "foreign_keys (snd (oturum_mesaj_ekle eng now oid rol icerik d)) = foreign_keys d"
  "foreign_keys (snd (oturum_sil eng oid d)) = foreign_keys d"
  by (cases eng; simp add: oturum_olustur_def oturum_mesaj_ekle_def oturum_sil_def
      get_cursor_def Let_def)+

lemma oturum_db_tables:
  "foreign_keys oturum_db = False"
  "map oturum_id (oturumlar oturum_db) = [ascii ''0a1b2c3d'']"
  "map (\<lambda>m. (mesaj_oturum_id m, mesaj_icerik m, mesaj_zaman m)) (mesajlar oturum_db) =
     [(ascii ''0a1b2c3d'', ascii ''bir'', 1001), (ascii ''0a1b2c3d'', ascii ''iki'', 1002),
      (ascii ''0a1b2c3d'', ascii ''uc'', 1003)]"
  by (simp_all add: oturum_db_def oturum_olustur_def oturum_mesaj_ekle_def
      get_cursor_Responding init_database_def ascii_def Let_def)


section \<open>Short-term memory: expiry, reading and pruning\<close>

lemma sorted_neg_key:
  "sorted (map (\<lambda>r. - (f r :: int)) xs) \<Longrightarrow> sorted_wrt (\<lambda>a b. f b \<le> f a) xs"
  by (simp add: sorted_map sorted_wrt_map)

lemma kisa_db_rows:
  "kisa_sureli kisa_db =
     [\<lparr>kisa_id = ascii ''k1'', kisa_icerik = ascii ''bir'', kisa_metadata = ascii ''{}'',
       kisa_erisim_sayisi = 0, kisa_son_erisim = Some 0, kisa_olusturma = 0,
       kisa_bitis = 86400000001\<rparr>,
      \<lparr>kisa_id = ascii ''k2'', kisa_icerik = ascii ''iki'', kisa_metadata = ascii ''{}'',
       kisa_erisim_sayisi = 0, kisa_son_erisim = Some 10, kisa_olusturma = 10,
       kisa_bitis = 86400000010\<rparr>]"
  by (simp add: kisa_db_def kisa_ekle_def get_cursor_Responding init_database_def hours24_def
      ascii_def)

text \<open>
  C3, as the code has it. \<open>kisa_ekle\<close> stores the first clock reading as the
  creation time and the second reading plus 24 hours as the expiry: the expiry is the
  creation time plus 24 hours when the two readings agree. \<open>kisa_getir\<close>, for a
  limit that SQLite can bind, takes the rows whose expiry is strictly later than the
  current time, newest first, and returns the first \<open>limit\<close> of them when the
  limit is not negative, all of them when it is negative. \<open>kisa_temizle\<close>
  removes the rows whose expiry is strictly earlier than the current time, returns
  their number and keeps every other row.
\<close>

theorem kisa_lifecycle:
  "(new_id \<notin> set (map kisa_id (kisa_sureli d)) \<longrightarrow>
      kisa_ekle Responding new_id now now2 icerik meta d =
        (Inr new_id,
         d\<lparr>kisa_sureli := kisa_sureli d @
             [\<lparr>kisa_id = new_id, kisa_icerik = icerik, kisa_metadata = meta,
               kisa_erisim_sayisi = 0, kisa_son_erisim = Some now,
               kisa_olusturma = now, kisa_bitis = now2 + hours24\<rparr>]\<rparr>)) \<and>
   (int64 limit \<longrightarrow>
      (\<exists>full. mset full = mset (filter (\<lambda>r. t < kisa_bitis r) (kisa_sureli d)) \<and>
              sorted_wrt (\<lambda>a b. kisa_olusturma b \<le> kisa_olusturma a) full \<and>
              kisa_getir Responding t limit d =
                Inr (if 0 \<le> limit then take (nat limit) full else full))) \<and>
   kisa_temizle Responding t d =
     (Inr (int (length (filter (\<lambda>r. kisa_bitis r < t) (kisa_sureli d)))),
      d\<lparr>kisa_sureli := filter (\<lambda>r. t \<le> kisa_bitis r) (kisa_sureli d)\<rparr>)"
proof (intro conjI impI)
  assume "new_id \<notin> set (map kisa_id (kisa_sureli d))"
  then show "kisa_ekle Responding new_id now now2 icerik meta d =
        (Inr new_id,
         d\<lparr>kisa_sureli := kisa_sureli d @
             [\<lparr>kisa_id = new_id, kisa_icerik = icerik, kisa_metadata = meta,
               kisa_erisim_sayisi = 0, kisa_son_erisim = Some now,
               kisa_olusturma = now, kisa_bitis = now2 + hours24\<rparr>]\<rparr>)"
    by (simp add: kisa_ekle_def get_cursor_Responding)
next
  assume l: "int64 limit"
  let ?full = "sort_key (\<lambda>r. - kisa_olusturma r) (filter (\<lambda>r. t < kisa_bitis r) (kisa_sureli d))"
  have 1: "mset ?full = mset (filter (\<lambda>r. t < kisa_bitis r) (kisa_sureli d))" by simp
  have 2: "sorted_wrt (\<lambda>a b. kisa_olusturma b \<le> kisa_olusturma a) ?full"
    by (rule sorted_neg_key) (rule sorted_sort_key)
  have 3: "kisa_getir Responding t limit d = Inr (if 0 \<le> limit then take (nat limit) ?full else ?full)"
    using l by (simp add: kisa_getir_def get_cursor_Responding sql_limit_def)
  from 1 2 3 show "\<exists>full. mset full = mset (filter (\<lambda>r. t < kisa_bitis r) (kisa_sureli d)) \<and>
              sorted_wrt (\<lambda>a b. kisa_olusturma b \<le> kisa_olusturma a) full \<and>
              kisa_getir Responding t limit d =
                Inr (if 0 \<le> limit then take (nat limit) full else full)"
    by blast
next
  have "filter (\<lambda>r. \<not> kisa_bitis r < t) (kisa_sureli d) =
        filter (\<lambda>r. t \<le> kisa_bitis r) (kisa_sureli d)"
    by (simp add: not_less)
  then show "kisa_temizle Responding t d =
     (Inr (int (length (filter (\<lambda>r. kisa_bitis r < t) (kisa_sureli d)))),
      d\<lparr>kisa_sureli := filter (\<lambda>r. t \<le> kisa_bitis r) (kisa_sureli d)\<rparr>)"
    by (simp add: kisa_temizle_def get_cursor_Responding)
qed

theorem kisa_lifecycle_witness:
  "fst (kisa_ekle Responding (ascii ''k3'') 30 31 (ascii ''uc'') (ascii ''{}'') kisa_db) =
     Inr (ascii ''k3'') \<and>
   (\<exists>rows. kisa_getir Responding 20 1 kisa_db = Inr rows \<and> length rows \<le> 1) \<and>
   fst (kisa_temizle Responding 86400000005 kisa_db) = Inr 1"
proof -
  have a: "ascii ''k3'' \<notin> set (map kisa_id (kisa_sureli kisa_db))"
    by (simp add: kisa_db_rows ascii_def)
  have b: "int64 1" by (simp add: int64_def)
  note th = kisa_lifecycle [where new_id = "ascii ''k3''" and d = kisa_db and now = 30
      and ?now2.0 = 31 and icerik = "ascii ''uc''" and meta = "ascii ''{}''" and limit = 1
      and t = 20]
  note th2 = kisa_lifecycle [where d = kisa_db and t = 86400000005]
  have 1: "fst (kisa_ekle Responding (ascii ''k3'') 30 31 (ascii ''uc'') (ascii ''{}'') kisa_db) =
     Inr (ascii ''k3'')"
    using th a by simp
  have 2: "\<exists>rows. kisa_getir Responding 20 1 kisa_db = Inr rows \<and> length rows \<le> 1"
    using th b by auto
  have 3: "fst (kisa_temizle Responding 86400000005 kisa_db) = Inr 1"
    using th2 by (simp add: kisa_db_rows)
  from 1 2 3 show ?thesis by blast
qed

text \<open>
  In the two-entry store the first entry, written while the clock moved, does not
  expire at its creation time plus 24 hours; and the limit -1 does not cap the rows
  read.
\<close>

theorem kisa_lifecycle_counterexample:
  "map (\<lambda>r. kisa_bitis r = kisa_olusturma r + hours24) (kisa_sureli kisa_db) = [False, True] \<and>
   (case kisa_getir Responding 20 (- 1) kisa_db of
      Inl e \<Rightarrow> False
    | Inr rows \<Rightarrow> map kisa_id rows = [ascii ''k2'', ascii ''k1''] \<and> \<not> int (length rows) \<le> - 1)"
  by (simp add: kisa_db_rows hours24_def kisa_getir_def get_cursor_Responding int64_def
      sql_limit_def)

section \<open>Learned answers: insert or replace\<close>








section \<open>Long-term memory: the range of the importance\<close>

text \<open>
  C5. An importance outside 1..10 makes \<open>uzun_ekle\<close> raise its
  \<open>ValueError\<close> with the store untouched, whatever the state of the engine: the
  test precedes the unit of work. With an importance within 1..10, on a responding
  engine and with an id that no row has yet, the row is inserted with this importance
  and the id is returned.
\<close>

theorem uzun_ekle_onem_range:
  "(\<not> (1 \<le> onem \<and> onem \<le> 10) \<longrightarrow>
      uzun_ekle eng new_id now icerik etiketler onem meta d = (Inl (ValueError onem_msg), d)) \<and>
   (1 \<le> onem \<and> onem \<le> 10 \<and> new_id \<notin> set (map uzun_id (uzun_sureli d)) \<longrightarrow>
      uzun_ekle Responding new_id now icerik etiketler onem meta d =
        (Inr new_id,
         d\<lparr>uzun_sureli := uzun_sureli d @
             [\<lparr>uzun_id = new_id, uzun_icerik = icerik, uzun_metadata = meta,
               uzun_etiketler = json_dumps_list (case etiketler of None \<Rightarrow> [] | Some ts \<Rightarrow> ts),
               uzun_onem = onem, uzun_erisim_sayisi = 0, uzun_son_erisim = Some now,
               uzun_olusturma = now\<rparr>]\<rparr>))"
  by (simp add: uzun_ekle_def get_cursor_Responding)

theorem uzun_ekle_onem_range_witness:
  "uzun_ekle Failing (ascii ''u1'') 1000 (ascii ''buy milk'') (Some [ascii ''errand'']) 11
     (ascii ''{}'') init_database = (Inl (ValueError onem_msg), init_database) \<and>
   fst (uzun_ekle Responding (ascii ''u1'') 1000 (ascii ''buy milk'') (Some [ascii ''errand'']) 7
     (ascii ''{}'') init_database) = Inr (ascii ''u1'') \<and>
   map uzun_onem (uzun_sureli (snd (uzun_ekle Responding (ascii ''u1'') 1000 (ascii ''buy milk'')
     (Some [ascii ''errand'']) 7 (ascii ''{}'') init_database))) = [7]"
proof -
  have a: "\<not> (1 \<le> (11::int) \<and> (11::int) \<le> 10)" by simp
  have b: "1 \<le> (7::int) \<and> (7::int) \<le> 10 \<and>
           ascii ''u1'' \<notin> set (map uzun_id (uzun_sureli init_database))"
    by (simp add: init_database_def)
  have c: "uzun_sureli init_database = []" by (simp add: init_database_def)
  from a b c
    uzun_ekle_onem_range [of 11 Failing "ascii ''u1''" 1000 "ascii ''buy milk''"
      "Some [ascii ''errand'']" "ascii ''{}''" init_database]
    uzun_ekle_onem_range [of 7 Failing "ascii ''u1''" 1000 "ascii ''buy milk''"
      "Some [ascii ''errand'']" "ascii ''{}''" init_database]
  show ?thesis by simp
qed

section \<open>Long-term memory: searching\<close>







section \<open>Long-term memory: reading by tag\<close>










section \<open>Commands: truncation and exit codes\<close>

lemma strip_Nil: "strip [] = []"
  by (simp add: strip_def lstrip_def rstrip_def)

lemma strip_replicate: "\<not> isspace c \<Longrightarrow> strip (replicate n c) = replicate n c"
  by (cases n) (simp_all add: strip_def lstrip_def rstrip_def replicate_append_same [symmetric]
      del: replicate_Suc)

lemma length_sonuc_yok: "length sonuc_yok = 9"
  by (simp add: sonuc_yok_def ascii_def)

text \<open>
  C8, as the code has it. For a command that passes \<open>sanitize_command\<close>:
  when the process exits with code 0, \<open>powershell\<close> returns its stripped
  standard output cut to 2000 characters; when it exits with another code,
  \<open>powershell\<close> returns \<open>Hata (kod <code>): \<close> followed by the stripped
  standard error cut to 200 characters; when the process exits with code 0,
  \<open>opencode\<close> returns standard output followed by standard error, cut to 1500
  characters, or \<open>Sonuc yok\<close> when both are empty. The bounds count characters.
  Every result is a string: the functions raise nothing.
\<close>

theorem command_output_budget:
  assumes "sanitize_command cmd = Inr c"
  shows "(run c = Completed 0 out err \<longrightarrow>
            powershell t run cmd = take 2000 (strip out) \<and>
            length (powershell t run cmd) \<le> 2000) \<and>
         (run c = Completed rc out err \<and> rc \<noteq> 0 \<longrightarrow>
            powershell t run cmd =
              ascii ''Hata (kod '' @ str_int rc @ ascii ''): '' @ take 200 (strip err)) \<and>
         (run (c @ [10]) = Completed 0 out err \<longrightarrow>
            opencode None True t run cmd =
              (if out @ err = [] then sonuc_yok else take 1500 (out @ err)) \<and>
            length (opencode None True t run cmd) \<le> 1500)"
  using assms
  by (auto simp: powershell_def opencode_def hata_kod_def strip_Nil length_sonuc_yok Let_def)

theorem command_output_budget_witness:
  "powershell 60 (\<lambda>c. Completed 0 (ascii '' tamam '') (ascii ''uyari'')) (ascii ''dir'') =
     ascii ''tamam'' \<and>
   powershell 60 (\<lambda>c. Completed 3 (ascii ''x'') (ascii '' yok '')) (ascii ''dir'') =
     ascii ''Hata (kod 3): yok'' \<and>
   opencode None True 300 (\<lambda>c. Completed 0 (ascii ''a'') (ascii ''b'')) (ascii ''fix'') =
     ascii ''ab''"
proof -
  have c: "sanitize_command (ascii ''dir'') = Inr (ascii ''dir'')"
          "sanitize_command (ascii ''fix'') = Inr (ascii ''fix'')"
    by (simp_all add: sanitize_command_def dangerous_chars_def ascii_def strip_def lstrip_def
        rstrip_def isspace_def)
  have s: "strip (ascii '' tamam '') = ascii ''tamam''" "strip (ascii '' yok '') = ascii ''yok''"
    by (simp_all add: ascii_def strip_def lstrip_def rstrip_def isspace_def)
  have d: "str_int 3 = ascii ''3''"
    by (simp add: str_int_def digits.simps ascii_def)
  from command_output_budget [OF c(1), of "\<lambda>c. Completed 0 (ascii '' tamam '') (ascii ''uyari'')"
      "ascii '' tamam ''" "ascii ''uyari''" 60 3]
  have 1: "powershell 60 (\<lambda>c. Completed 0 (ascii '' tamam '') (ascii ''uyari'')) (ascii ''dir'') =
     ascii ''tamam''"
    by (simp add: s) (simp add: ascii_def)
  from command_output_budget [OF c(1), of "\<lambda>c. Completed 3 (ascii ''x'') (ascii '' yok '')"
      "ascii ''x''" "ascii '' yok ''" 60 3]
  have 2: "powershell 60 (\<lambda>c. Completed 3 (ascii ''x'') (ascii '' yok '')) (ascii ''dir'') =
     ascii ''Hata (kod 3): yok''"
    by (simp add: s d) (simp add: ascii_def)
  from command_output_budget [OF c(2), of "\<lambda>c. Completed 0 (ascii ''a'') (ascii ''b'')"
      "ascii ''a''" "ascii ''b''" 300 3]
  have 3: "opencode None True 300 (\<lambda>c. Completed 0 (ascii ''a'') (ascii ''b'')) (ascii ''fix'') =
     ascii ''ab''"
    by (simp add: ascii_def)
  from 1 2 3 show ?thesis by blast
qed

text \<open>
  \<open>opencode\<close> does not look at the return code: a process that exits with
  code 1 and prints \<open>boom\<close> on its standard error yields \<open>boom\<close>, which
  does not show the code. And 2000 characters can be more than 2000 bytes: an output
  of 2000 letters e-acute is returned whole, 4000 bytes in UTF-8.
\<close>

theorem command_output_counterexample:
  "opencode None True 300 (\<lambda>c. Completed 1 [] (ascii ''boom'')) (ascii ''fix'') = ascii ''boom'' \<and>
   str_int 1 = ascii ''1'' \<and> 49 \<notin> set (ascii ''boom'') \<and>
   powershell 60 (\<lambda>c. Completed 0 (replicate 2000 233) []) (ascii ''dir'') = replicate 2000 233 \<and>
   utf8_size (replicate 2000 233) = 4000"
proof -
  have c: "sanitize_command (ascii ''dir'') = Inr (ascii ''dir'')"
          "sanitize_command (ascii ''fix'') = Inr (ascii ''fix'')"
    by (simp_all add: sanitize_command_def dangerous_chars_def ascii_def strip_def lstrip_def
        rstrip_def isspace_def)
  have 1: "opencode None True 300 (\<lambda>c. Completed 1 [] (ascii ''boom'')) (ascii ''fix'') =
     ascii ''boom''"
    by (simp add: opencode_def c) (simp add: ascii_def)
  have 2: "str_int 1 = ascii ''1''" "49 \<notin> set (ascii ''boom'')"
    by (simp_all add: str_int_def digits.simps ascii_def)
  have "\<not> isspace 233" by (simp add: isspace_def)
  then have "strip (replicate 2000 233) = replicate 2000 233" by (rule strip_replicate)
  then have 3: "powershell 60 (\<lambda>c. Completed 0 (replicate 2000 233) []) (ascii ''dir'') =
     replicate 2000 233"
    by (simp add: powershell_def c)
  have 4: "utf8_size (replicate 2000 233) = 4000"
    by (simp add: utf8_size_def utf8_len_def sum_list_replicate)
  from 1 2 3 4 show ?thesis by blast
qed

section \<open>Tasks: completing and deleting an id that no task has\<close>

lemma gorev_db_rows: "map gorev_id (gorevler gorev_db) = [1]"
  by (simp add: gorev_db_def gorev_ekle_def get_cursor_Responding init_database_def
      oncelikler_def ascii_def)

text \<open>
  C10, as the code has it. On a responding engine, for every id that SQLite can bind
  (a signed 64-bit integer) and that no stored task has, \<open>gorev_tamamla\<close> and
  \<open>gorev_sil\<close> return \<open>None\<close> and leave the whole store as it was.
\<close>

theorem gorev_missing_id:
  assumes "int64 gid" and "gid \<notin> set (map gorev_id (gorevler d))"
  shows "gorev_tamamla Responding now gid d = (Inr (), d) \<and>
         gorev_sil Responding gid d = (Inr (), d)"
proof -
  have m: "map (\<lambda>r. if gorev_id r = gid
                    then r\<lparr>gorev_durum := ascii ''tamamlandi'', gorev_tamamlanma := Some now\<rparr>
                    else r) (gorevler d) = gorevler d"
    using assms(2) by (intro map_idI) auto
  have f: "filter (\<lambda>r. gorev_id r \<noteq> gid) (gorevler d) = gorevler d"
    using assms(2) by (intro filter_True) auto
  show ?thesis
    using assms(1) by (simp add: gorev_tamamla_def gorev_sil_def get_cursor_Responding m f)
qed

theorem gorev_missing_id_witness:
  "gorev_tamamla Responding 2000 7 gorev_db = (Inr (), gorev_db) \<and>
   gorev_sil Responding 7 gorev_db = (Inr (), gorev_db)"
proof -
  have a: "int64 7" by (simp add: int64_def)
  have b: "(7::int) \<notin> set (map gorev_id (gorevler gorev_db))" by (simp add: gorev_db_rows)
  show ?thesis using gorev_missing_id [OF a b] by simp
qed

text \<open>
  The id 2^63 matches no task of the one-task store, and both operations raise
  \<open>OverflowError\<close> on it: the command line \<open>gorev sil 9223372036854775808\<close>
  reaches \<open>gorev_sil\<close> with this id.
\<close>

theorem gorev_huge_id_counterexample:
  "(2 ^ 63 :: int) \<notin> set (map gorev_id (gorevler gorev_db)) \<and>
   gorev_tamamla Responding 2000 (2 ^ 63) gorev_db = (Inl OverflowError, gorev_db) \<and>
   gorev_sil Responding (2 ^ 63) gorev_db = (Inl OverflowError, gorev_db)"
  by (simp add: gorev_db_rows gorev_tamamla_def gorev_sil_def get_cursor_Responding int64_def)

end
